theory Spec2Isabelle
  imports Complex_Main
begin

section \<open>Numeric cells of a DataFrame column\<close>

text \<open>
  A numeric column of the tables handled by \<^verbatim>\<open>src/transform.py\<close> holds
  float64 (or int64) values. A cell is modelled as an exact rational, one of the two
  infinities, or NaN, which is also how pandas represents a missing number. Finite
  arithmetic is exact: rounding to the nearest double and overflow are not modelled.
  The operations follow IEEE 754 on the special values (signed zeros apart), which is
  what numpy does for a Series.
\<close>

datatype fnum = Fin rat | PInf | NInf | NaN

fun fadd :: "fnum \<Rightarrow> fnum \<Rightarrow> fnum" where
  "fadd (Fin a) (Fin b) = Fin (a + b)"
| "fadd NaN _ = NaN"
| "fadd _ NaN = NaN"
| "fadd PInf NInf = NaN"
| "fadd NInf PInf = NaN"
| "fadd PInf _ = PInf"
| "fadd _ PInf = PInf"
| "fadd NInf _ = NInf"
| "fadd _ NInf = NInf"

definition inf_of_sign :: "rat \<Rightarrow> fnum" where
  "inf_of_sign a = (if a = 0 then NaN else if 0 < a then PInf else NInf)"

fun fmul :: "fnum \<Rightarrow> fnum \<Rightarrow> fnum" where
  "fmul (Fin a) (Fin b) = Fin (a * b)"
| "fmul NaN _ = NaN"
| "fmul _ NaN = NaN"
| "fmul (Fin a) PInf = inf_of_sign a"
| "fmul (Fin a) NInf = inf_of_sign (- a)"
| "fmul PInf (Fin b) = inf_of_sign b"
| "fmul NInf (Fin b) = inf_of_sign (- b)"
| "fmul PInf PInf = PInf"
| "fmul NInf NInf = PInf"
| "fmul PInf NInf = NInf"
| "fmul NInf PInf = NInf"

text \<open>
  Division of a Series by a Series or a scalar never raises: a zero divisor gives an
  infinity, and \<open>0 / 0\<close> gives NaN.
\<close>

fun fdiv :: "fnum \<Rightarrow> fnum \<Rightarrow> fnum" where
  "fdiv (Fin a) (Fin b) = (if b = 0 then inf_of_sign a else Fin (a / b))"
| "fdiv NaN _ = NaN"
| "fdiv _ NaN = NaN"
| "fdiv (Fin a) PInf = Fin 0"
| "fdiv (Fin a) NInf = Fin 0"
| "fdiv PInf (Fin b) = (if 0 \<le> b then PInf else NInf)"
| "fdiv NInf (Fin b) = (if 0 \<le> b then NInf else PInf)"
| "fdiv PInf _ = NaN"
| "fdiv NInf _ = NaN"

text \<open>Comparisons: every comparison with NaN is false.\<close>

fun fless :: "fnum \<Rightarrow> fnum \<Rightarrow> bool" where
  "fless (Fin a) (Fin b) = (a < b)"
| "fless NaN _ = False"
| "fless _ NaN = False"
| "fless _ NInf = False"
| "fless PInf _ = False"
| "fless NInf _ = True"
| "fless _ PInf = True"

fun fle :: "fnum \<Rightarrow> fnum \<Rightarrow> bool" where
  "fle (Fin a) (Fin b) = (a \<le> b)"
| "fle NaN _ = False"
| "fle _ NaN = False"
| "fle NInf _ = True"
| "fle _ PInf = True"
| "fle PInf _ = False"
| "fle _ NInf = False"


text \<open>\<^verbatim>\<open>Series.fillna(v)\<close>, \<^verbatim>\<open>Series.replace(a, b)\<close> and
  \<^verbatim>\<open>Series.clip(lower=l)\<close>, cell by cell. NaN stays NaN under \<open>replace\<close> and
  \<open>clip\<close>.\<close>

fun fillna :: "rat \<Rightarrow> fnum \<Rightarrow> fnum" where
  "fillna v NaN = Fin v"
| "fillna v x = x"

fun replace_val :: "rat \<Rightarrow> rat \<Rightarrow> fnum \<Rightarrow> fnum" where
  "replace_val a b (Fin x) = (if x = a then Fin b else Fin x)"
| "replace_val a b x = x"

fun clip_lower :: "rat \<Rightarrow> fnum \<Rightarrow> fnum" where
  "clip_lower l (Fin x) = (if x < l then Fin l else Fin x)"
| "clip_lower l NInf = Fin l"
| "clip_lower l x = x"

text \<open>
  \<^verbatim>\<open>Series.round(d)\<close> is numpy's \<open>around\<close>: scale by \<open>10 ^ d\<close>, round to the
  nearest integer with ties to the even one (\<open>rint\<close>), scale back.
\<close>

definition rint :: "rat \<Rightarrow> int" where
  "rint x =
     (let f = \<lfloor>x\<rfloor>; d = x - of_int f
      in if d < 1 / 2 then f else if 1 / 2 < d then f + 1
         else if even f then f else f + 1)"

fun fround :: "nat \<Rightarrow> fnum \<Rightarrow> fnum" where
  "fround d (Fin x) = Fin (of_int (rint (x * 10 ^ d)) / 10 ^ d)"
| "fround d x = x"

text \<open>
  \<^verbatim>\<open>pd.cut(x, bins, labels)\<close> with its defaults \<open>right=True\<close> and
  \<open>include_lowest=False\<close>: label \<open>i\<close> is given to the values of the interval
  \<open>(bins[i], bins[i+1]]\<close>, open on the left and closed on the right; a value in no
  interval, and NaN, get no category (\<open>None\<close>).
\<close>

fun cut :: "fnum \<Rightarrow> fnum list \<Rightarrow> string list \<Rightarrow> string option" where
  "cut x (lo # hi # bins) (l # labels) =
     (if fless lo x \<and> fle x hi then Some l else cut x (hi # bins) labels)"
| "cut x _ _ = None"

section \<open>Tables\<close>

text \<open>
  The \<open>published_at\<close> column holds text when the table is loaded and timestamps once
  \<^verbatim>\<open>pd.to_datetime\<close> has run. \<open>Text s\<close> is a text cell and \<open>Missing\<close> an
  empty cell of a loaded table; \<open>Stamp t\<close> and \<open>NaT\<close> are the cells of a datetime
  column. Instants are nanoseconds since 1970, without a time zone.
\<close>

datatype published = Missing | Text string | NaT | Stamp int

text \<open>
  The dtype of the \<open>published_at\<close> column belongs to the table, not to its cells:
  an empty column has one too. \<open>Object\<close> stands for every dtype that is not a
  datetime dtype.
\<close>

datatype dtype = Object | Datetime

text \<open>
  One row of the raw table, with the columns written by
  \<^verbatim>\<open>YouTubeExtractor._parse_video\<close>. The optional channel aggregates
  (\<open>subscriber_count\<close>, \<open>total_views\<close>, \<open>video_count\<close>) are never read or
  written by the transformer and are left out.
\<close>

record video_record =
  video_id :: string
  title :: string
  channel_id :: string
  channel_title :: string
  category_id :: string
  category_name :: string
  published_at :: published
  duration_seconds :: fnum
  view_count :: fnum
  like_count :: fnum
  comment_count :: fnum
  collected_at :: string

text \<open>The columns assigned by \<^verbatim>\<open>calculate_metrics\<close>, in the order of the source.\<close>

record metrics_cols =
  duration_minutes :: fnum
  base_ad_rate :: fnum
  channel_tier :: string
  tier_multiplier :: fnum
  ad_density :: fnum
  estimated_ads :: fnum
  ad_time_seconds :: fnum
  ad_ratio :: fnum
  engagement_rate :: fnum
  revenue_pressure :: fnum

text \<open>The columns assigned by \<^verbatim>\<open>add_features\<close>. \<open>duration_category\<close> stays
  categorical: \<open>None\<close> is the missing category.\<close>

record feature_cols =
  age_days :: fnum
  duration_category :: "string option"
  views_per_day :: fnum

text \<open>
  A DataFrame has the raw columns, or the raw and the metric columns, or all of them.
  Which columns exist is a property of the table, not of a row.
\<close>

datatype dataframe =
    Videos dtype "video_record list"
  | Metrics dtype "(video_record \<times> metrics_cols) list"
  | Features dtype "(video_record \<times> metrics_cols \<times> feature_cols) list"

fun dtype_of :: "dataframe \<Rightarrow> dtype" where
  "dtype_of (Videos k rs) = k"
| "dtype_of (Metrics k rs) = k"
| "dtype_of (Features k rs) = k"

fun set_dtype :: "dtype \<Rightarrow> dataframe \<Rightarrow> dataframe" where
  "set_dtype k (Videos _ rs) = Videos k rs"
| "set_dtype k (Metrics _ rs) = Metrics k rs"
| "set_dtype k (Features _ rs) = Features k rs"

fun videos_of :: "dataframe \<Rightarrow> video_record list" where
  "videos_of (Videos k rs) = rs"
| "videos_of (Metrics k rs) = map fst rs"
| "videos_of (Features k rs) = map fst rs"

text \<open>The rows of a table with their metric columns, and with their feature columns;
  empty when the table lacks them.\<close>

fun metric_rows :: "dataframe \<Rightarrow> (video_record \<times> metrics_cols) list" where
  "metric_rows (Videos k rs) = []"
| "metric_rows (Metrics k rs) = rs"
| "metric_rows (Features k rs) = map (\<lambda>(v, m, f). (v, m)) rs"

fun feature_rows :: "dataframe \<Rightarrow> (video_record \<times> metrics_cols \<times> feature_cols) list" where
  "feature_rows (Features k rs) = rs"
| "feature_rows _ = []"

fun map_videos :: "(video_record \<Rightarrow> video_record) \<Rightarrow> dataframe \<Rightarrow> dataframe" where
  "map_videos f (Videos k rs) = Videos k (map f rs)"
| "map_videos f (Metrics k rs) = Metrics k (map (apfst f) rs)"
| "map_videos f (Features k rs) = Features k (map (apfst f) rs)"

fun filter_videos :: "(video_record \<Rightarrow> bool) \<Rightarrow> dataframe \<Rightarrow> dataframe" where
  "filter_videos P (Videos k rs) = Videos k (filter P rs)"
| "filter_videos P (Metrics k rs) = Metrics k (filter (P \<circ> fst) rs)"
| "filter_videos P (Features k rs) = Features k (filter (P \<circ> fst) rs)"

text \<open>\<^verbatim>\<open>df.drop_duplicates(subset=['video_id'])\<close>: the first row of each
  \<open>video_id\<close> is kept, in the order of the table.\<close>

fun drop_dups :: "('r \<Rightarrow> string) \<Rightarrow> string list \<Rightarrow> 'r list \<Rightarrow> 'r list" where
  "drop_dups key seen [] = []"
| "drop_dups key seen (r # rs) =
     (if key r \<in> set seen then drop_dups key seen rs
      else r # drop_dups key (key r # seen) rs)"

fun drop_duplicates :: "dataframe \<Rightarrow> dataframe" where
  "drop_duplicates (Videos k rs) = Videos k (drop_dups video_id [] rs)"
| "drop_duplicates (Metrics k rs) = Metrics k (drop_dups (video_id \<circ> fst) [] rs)"
| "drop_duplicates (Features k rs) = Features k (drop_dups (video_id \<circ> fst) [] rs)"

section \<open>The formulas of \<^verbatim>\<open>calculate_metrics\<close> and \<^verbatim>\<open>add_features\<close>\<close>

definition category_rates :: "(string \<times> rat) list" where
  "category_rates =
     [(''Music'', 15 / 100),
      (''Gaming'', 25 / 100),
      (''People & Blogs'', 22 / 100),
      (''Entertainment'', 30 / 100),
      (''News & Politics'', 35 / 100),
      (''Sports'', 32 / 100),
      (''Science & Technology'', 22 / 100)]"

definition tier_multipliers :: "(string \<times> rat) list" where
  "tier_multipliers =
     [(''Micro'', 12 / 10), (''Small'', 11 / 10), (''Medium'', 1),
      (''Large'', 9 / 10), (''Enterprise'', 8 / 10)]"

text \<open>\<^verbatim>\<open>Series.map(dict)\<close>: a key that the dict lacks gives NaN.\<close>

definition dict_map :: "(string \<times> rat) list \<Rightarrow> string \<Rightarrow> fnum" where
  "dict_map d k = (case map_of d k of None \<Rightarrow> NaN | Some v \<Rightarrow> Fin v)"

text \<open>\<^verbatim>\<open>astype(str)\<close> on a categorical column: the missing category becomes
  the text \<open>nan\<close>.\<close>

definition astype_str :: "string option \<Rightarrow> string" where
  "astype_str c = (case c of None \<Rightarrow> ''nan'' | Some l \<Rightarrow> l)"

definition tier_bins :: "fnum list" where
  "tier_bins = [Fin 0, Fin 10000, Fin 100000, Fin 1000000, Fin 10000000, PInf]"

definition tier_labels :: "string list" where
  "tier_labels = [''Micro'', ''Small'', ''Medium'', ''Large'', ''Enterprise'']"

text \<open>
  The ten column assignments of \<^verbatim>\<open>calculate_metrics\<close> work cell by cell, and
  each reads only raw columns and columns assigned before it. They are applied to one
  row, in the order of the source.
\<close>

definition metrics_of :: "video_record \<Rightarrow> metrics_cols" where
  "metrics_of v =
     (let dm = fdiv (duration_seconds v) (Fin 60);
          rate = fillna (25 / 100) (dict_map category_rates (category_name v));
          tier = astype_str (cut (view_count v) tier_bins tier_labels);
          mult = fillna 1 (dict_map tier_multipliers tier);
          dens = fmul rate mult;
          ads = fround 0 (clip_lower 1 (fmul dens dm));
          secs = fmul ads (Fin 20);
          ratio = fround 2 (fmul (fdiv secs (duration_seconds v)) (Fin 100));
          eng = fround 3
                  (fmul (fdiv (fadd (like_count v) (comment_count v))
                              (replace_val 0 1 (view_count v)))
                        (Fin 100));
          press = fround 3
                    (fadd (fadd (fmul dens (Fin (5 / 10)))
                                (fmul (fmul ratio (Fin (1 / 100))) (Fin (3 / 10))))
                          (fmul (fdiv (view_count v) (Fin 1000000)) (Fin (2 / 10))))
      in \<lparr>duration_minutes = dm, base_ad_rate = rate, channel_tier = tier,
          tier_multiplier = mult, ad_density = dens, estimated_ads = ads,
          ad_time_seconds = secs, ad_ratio = ratio, engagement_rate = eng,
          revenue_pressure = press\<rparr>)"

fun set_metrics :: "dataframe \<Rightarrow> dataframe" where
  "set_metrics (Videos k rs) = Metrics k (map (\<lambda>v. (v, metrics_of v)) rs)"
| "set_metrics (Metrics k rs) = Metrics k (map (\<lambda>(v, m). (v, metrics_of v)) rs)"
| "set_metrics (Features k rs) = Features k (map (\<lambda>(v, m, f). (v, metrics_of v, f)) rs)"

definition day_ns :: int where
  "day_ns = 86400000000000"

text \<open>\<^verbatim>\<open>(now - published_at).dt.days\<close>: whole days, rounded down; NaN for NaT.\<close>

fun age_of :: "int \<Rightarrow> published \<Rightarrow> fnum" where
  "age_of now (Stamp t) = Fin (of_int ((now - t) div day_ns))"
| "age_of now _ = NaN"

text \<open>
  The difference \<open>now - published_at\<close> is a count of nanoseconds in 64 bits; pandas
  raises OverflowError when it does not fit (the least 64-bit value stands for NaT).
\<close>

definition timedelta_ok :: "int \<Rightarrow> published \<Rightarrow> bool" where
  "timedelta_ok now p =
     (case p of Stamp t \<Rightarrow> - (2 ^ 63) < now - t \<and> now - t < 2 ^ 63 | _ \<Rightarrow> True)"

definition duration_bins :: "fnum list" where
  "duration_bins = [Fin 0, Fin 5, Fin 15, Fin 30, PInf]"

definition duration_labels :: "string list" where
  "duration_labels = [''Short'', ''Medium'', ''Long'', ''Very Long'']"

definition features_of :: "int \<Rightarrow> video_record \<Rightarrow> metrics_cols \<Rightarrow> feature_cols" where
  "features_of now v m =
     (let age = age_of now (published_at v);
          cat = cut (duration_minutes m) duration_bins duration_labels;
          vpd = fround 0 (fdiv (view_count v) (replace_val 0 1 age))
      in \<lparr>age_days = age, duration_category = cat, views_per_day = vpd\<rparr>)"

fun set_features :: "int \<Rightarrow> dataframe \<Rightarrow> dataframe" where
  "set_features now (Videos k rs) = Videos k rs"
| "set_features now (Metrics k rs) =
     Features k (map (\<lambda>(v, m). (v, m, features_of now v m)) rs)"
| "set_features now (Features k rs) =
     Features k (map (\<lambda>(v, m, f). (v, m, features_of now v m)) rs)"

fun has_metrics :: "dataframe \<Rightarrow> bool" where
  "has_metrics (Videos k rs) = False"
| "has_metrics _ = True"

section \<open>The cleaning steps\<close>

definition fill_counters :: "video_record \<Rightarrow> video_record" where
  "fill_counters v =
     v\<lparr>view_count := fillna 0 (view_count v),
       like_count := fillna 0 (like_count v),
       comment_count := fillna 0 (comment_count v)\<rparr>"

text \<open>\<^verbatim>\<open>df['duration_seconds'] > 0\<close>\<close>

definition positive_duration :: "video_record \<Rightarrow> bool" where
  "positive_duration v = fless (Fin 0) (duration_seconds v)"

text \<open>
  \<^verbatim>\<open>pd.to_datetime(df['published_at'])\<close> is a call into pandas on the whole
  column: how a text is read can depend on the other texts (pandas may fix one format
  from the first text and hold the others to it). The call is a parameter of the model:
  a \<open>parser\<close> is given the texts of the column (\<open>None\<close> for a cell without text) and
  says which dtype the parsed column has and how it reads a text in that column,
  \<open>None\<close> when it cannot. The dtype is a datetime dtype unless pandas keeps the
  timestamps as objects, as some versions do for texts with different UTC offsets. With
  the default \<open>errors='raise'\<close> the first text that cannot be read raises; otherwise
  every text becomes its timestamp and an empty cell becomes NaT. A column that is a
  datetime column already is returned as it is.
\<close>

type_synonym parser = "string option list \<Rightarrow> dtype \<times> (string \<Rightarrow> int option)"

fun text_of :: "published \<Rightarrow> string option" where
  "text_of (Text t) = Some t"
| "text_of _ = None"

fun first_unparsable :: "(string \<Rightarrow> int option) \<Rightarrow> published list \<Rightarrow> string option" where
  "first_unparsable parse [] = None"
| "first_unparsable parse (Text t # ps) =
     (case parse t of None \<Rightarrow> Some t | Some _ \<Rightarrow> first_unparsable parse ps)"
| "first_unparsable parse (p # ps) = first_unparsable parse ps"

fun to_stamp :: "(string \<Rightarrow> int option) \<Rightarrow> published \<Rightarrow> published" where
  "to_stamp parse Missing = NaT"
| "to_stamp parse (Text t) = (case parse t of None \<Rightarrow> Text t | Some i \<Rightarrow> Stamp i)"
| "to_stamp parse p = p"

definition set_datetime :: "(string \<Rightarrow> int option) \<Rightarrow> video_record \<Rightarrow> video_record" where
  "set_datetime parse v = v\<lparr>published_at := to_stamp parse (published_at v)\<rparr>"

text \<open>
  The table on which \<open>clean_data\<close> calls \<^verbatim>\<open>pd.to_datetime\<close>, its rows as they
  were in the table cleaned, how the parser reads a text in the column of that table,
  and the dtype of the column once parsed.
\<close>

abbreviation kept :: "dataframe \<Rightarrow> dataframe" where
  "kept d \<equiv> filter_videos positive_duration (map_videos fill_counters (drop_duplicates d))"

abbreviation survivors :: "dataframe \<Rightarrow> video_record list" where
  "survivors d \<equiv> filter positive_duration (drop_dups video_id [] (videos_of d))"

abbreviation reading :: "parser \<Rightarrow> dataframe \<Rightarrow> string \<Rightarrow> int option" where
  "reading to_datetime d \<equiv>
     snd (to_datetime (map text_of (map published_at (videos_of (kept d)))))"

abbreviation parsed_dtype :: "parser \<Rightarrow> dataframe \<Rightarrow> dtype" where
  "parsed_dtype to_datetime d \<equiv>
     (if dtype_of d = Datetime then Datetime
      else fst (to_datetime (map text_of (map published_at (videos_of (kept d))))))"

section \<open>The transformer and its store\<close>

text \<open>
  \<^verbatim>\<open>DataTransformer\<close> keeps references to DataFrame objects in \<open>self.data\<close> and
  \<open>self.processed\<close> (\<open>None\<close> before they are set), and its methods return the
  object they have built. The store is the list of all DataFrame objects, a reference
  is an index into it. \<open>df.copy()\<close>, \<open>df.drop_duplicates(...)\<close> and \<open>df[mask]\<close>
  build a new object; \<open>df[col] = ...\<close> changes the object \<open>df\<close> refers to.
  \<open>filepath\<close>, \<open>load_data\<close> and \<open>save_processed\<close> are file input and output
  and are not modelled: a loaded table is an object of the initial store.
\<close>

datatype error =
  AttributeError | KeyError string | ValueError string | OverflowError | Bad_reference

record state =
  heap :: "dataframe list"
  data :: "nat option"
  processed :: "nat option"

definition deref :: "dataframe list \<Rightarrow> nat \<Rightarrow> dataframe option" where
  "deref h a = (if a < length h then Some (h ! a) else None)"

definition new_frame :: "dataframe \<Rightarrow> dataframe list \<Rightarrow> nat \<times> dataframe list" where
  "new_frame d h = (length h, h @ [d])"

definition assign :: "nat \<Rightarrow> (dataframe \<Rightarrow> dataframe) \<Rightarrow> dataframe list \<Rightarrow> dataframe list" where
  "assign a f h = h[a := f (h ! a)]"

text \<open>
  \<open>self.data.copy()\<close> raises AttributeError when \<open>self.data\<close> is \<open>None\<close>. A
  reference outside the store cannot exist in Python; the model answers
  \<open>Bad_reference\<close> there, so that no function reads the store out of range.
\<close>

definition copy_of :: "nat option \<Rightarrow> dataframe list \<Rightarrow> error + (nat \<times> dataframe list)" where
  "copy_of r h =
     (case r of
        None \<Rightarrow> Inl AttributeError
      | Some a \<Rightarrow>
          (case deref h a of
             None \<Rightarrow> Inl Bad_reference
           | Some d \<Rightarrow> Inr (new_frame d h)))"

definition clean_data :: "parser \<Rightarrow> state \<Rightarrow> error + (nat \<times> state)" where
  "clean_data to_datetime s =
     (case copy_of (data s) (heap s) of
        Inl e \<Rightarrow> Inl e
      | Inr (df0, h0) \<Rightarrow>
          (let (df1, h1) = new_frame (drop_duplicates (h0 ! df0)) h0;
               h2 = assign df1 (map_videos fill_counters) h1;
               (df3, h3) = new_frame (filter_videos positive_duration (h2 ! df1)) h2;
               col = map published_at (videos_of (h3 ! df3));
               (k, parse) = to_datetime (map text_of col);
               k' = (if dtype_of (h3 ! df3) = Datetime then Datetime else k)
           in case first_unparsable parse col of
                Some t \<Rightarrow> Inl (ValueError t)
              | None \<Rightarrow>
                  (let h4 = assign df3 (set_dtype k' \<circ> map_videos (set_datetime parse)) h3
                   in Inr (df3, s\<lparr>heap := h4, data := Some df3\<rparr>))))"

definition calculate_metrics :: "state \<Rightarrow> error + (nat \<times> state)" where
  "calculate_metrics s =
     (case copy_of (data s) (heap s) of
        Inl e \<Rightarrow> Inl e
      | Inr (df, h0) \<Rightarrow>
          (let h1 = assign df set_metrics h0
           in Inr (df, s\<lparr>heap := h1, processed := Some df\<rparr>)))"

text \<open>
  \<open>now\<close> is \<^verbatim>\<open>pd.Timestamp.now()\<close>, read once in the call. The \<open>.dt\<close>
  accessor raises AttributeError on a column that is not a datetime column, the
  subtraction raises an overflow error when a difference does not fit, and
  \<open>df['duration_minutes']\<close> raises KeyError on a table without the metric columns.
\<close>

definition add_features :: "int \<Rightarrow> state \<Rightarrow> error + (nat \<times> state)" where
  "add_features now s =
     (case copy_of (processed s) (heap s) of
        Inl e \<Rightarrow> Inl e
      | Inr (df, h0) \<Rightarrow>
          if dtype_of (h0 ! df) \<noteq> Datetime then Inl AttributeError
          else if \<not> list_all (timedelta_ok now) (map published_at (videos_of (h0 ! df)))
          then Inl OverflowError
          else if \<not> has_metrics (h0 ! df) then Inl (KeyError ''duration_minutes'')
          else (let h1 = assign df (set_features now) h0
                in Inr (df, s\<lparr>heap := h1, processed := Some df\<rparr>)))"

definition process_pipeline :: "parser \<Rightarrow> int \<Rightarrow> state \<Rightarrow> error + (nat \<times> state)" where
  "process_pipeline to_datetime now s =
     (case clean_data to_datetime s of
        Inl e \<Rightarrow> Inl e
      | Inr (_, s1) \<Rightarrow>
          (case calculate_metrics s1 of
             Inl e \<Rightarrow> Inl e
           | Inr (_, s2) \<Rightarrow>
               (case add_features now s2 of
                  Inl e \<Rightarrow> Inl e
                | Inr (_, s3) \<Rightarrow>
                    (case processed s3 of
                       None \<Rightarrow> Inl Bad_reference
                     | Some p \<Rightarrow> Inr (p, s3)))))"

section \<open>Concrete tables\<close>

text \<open>
  For the runs on concrete tables a parser is needed. \<open>iso_utc\<close> reads the one
  form in which the YouTube Data API writes \<open>publishedAt\<close>, and in which the
  fixture of \<^verbatim>\<open>tests/test_pipeline.py\<close> has it:
  \<^verbatim>\<open>YYYY-MM-DDTHH:MM:SSZ\<close>. It gives the nanoseconds since 1970 and refuses every
  other text, an impossible date, and a year outside the range of a 64-bit count of
  nanoseconds. All its timestamps are in UTC, so the parsed column is a datetime
  column. It stands for \<^verbatim>\<open>pd.to_datetime\<close> on the tables of this section only;
  every general statement below is about an arbitrary parser.
\<close>

definition digit_val :: "char \<Rightarrow> nat option" where
  "digit_val c =
     (let n = (of_char c :: nat) in if 48 \<le> n \<and> n \<le> 57 then Some (n - 48) else None)"

fun number :: "nat \<Rightarrow> string \<Rightarrow> nat option" where
  "number n [] = Some n"
| "number n (c # cs) =
     (case digit_val c of None \<Rightarrow> None | Some d \<Rightarrow> number (10 * n + d) cs)"

definition is_leap :: "nat \<Rightarrow> bool" where
  "is_leap y \<longleftrightarrow> y mod 4 = 0 \<and> (y mod 100 \<noteq> 0 \<or> y mod 400 = 0)"

definition days_in_month :: "nat \<Rightarrow> nat \<Rightarrow> nat" where
  "days_in_month y m =
     (if m = 2 then (if is_leap y then 29 else 28)
      else if m = 4 \<or> m = 6 \<or> m = 9 \<or> m = 11 then 30 else 31)"

text \<open>The days from 1970-01-01 to a date of the Gregorian calendar.\<close>

definition days_from_civil :: "nat \<Rightarrow> nat \<Rightarrow> nat \<Rightarrow> int" where
  "days_from_civil y m d =
     (let y' = (if m \<le> 2 then int y - 1 else int y);
          era = y' div 400;
          yoe = y' - era * 400;
          mp = (if 2 < m then int m - 3 else int m + 9);
          doy = (153 * mp + 2) div 5 + int d - 1;
          doe = yoe * 365 + yoe div 4 - yoe div 100 + doy
      in era * 146097 + doe - 719468)"

definition iso_utc :: "string \<Rightarrow> int option" where
  "iso_utc s =
     (if length s = 20 \<and> s ! 4 = CHR ''-'' \<and> s ! 7 = CHR ''-'' \<and> s ! 10 = CHR ''T'' \<and>
         s ! 13 = CHR '':'' \<and> s ! 16 = CHR '':'' \<and> s ! 19 = CHR ''Z''
      then
        (case (number 0 (take 4 s), number 0 (take 2 (drop 5 s)),
               number 0 (take 2 (drop 8 s)), number 0 (take 2 (drop 11 s)),
               number 0 (take 2 (drop 14 s)), number 0 (take 2 (drop 17 s))) of
           (Some y, Some mo, Some d, Some h, Some mi, Some se) \<Rightarrow>
             if 1678 \<le> y \<and> y \<le> 2261 \<and> 1 \<le> mo \<and> mo \<le> 12 \<and> 1 \<le> d \<and>
                d \<le> days_in_month y mo \<and> h < 24 \<and> mi < 60 \<and> se < 60
             then Some ((((days_from_civil y mo d * 24 + int h) * 60 + int mi) * 60 + int se)
                        * 1000000000)
             else None
         | _ \<Rightarrow> None)
      else None)"

definition api_parser :: parser where
  "api_parser col = (Datetime, iso_utc)"

text \<open>The fixture \<open>sample_data\<close> of the tests, and a transformer whose
  \<open>self.data\<close> is a loaded table.\<close>

definition sample_video :: "string \<Rightarrow> string \<Rightarrow> published \<Rightarrow> rat \<Rightarrow> rat \<Rightarrow> video_record" where
  "sample_video vid cat pub dur views =
     \<lparr>video_id = vid, title = ''Video'', channel_id = ''ch'', channel_title = ''Channel'',
      category_id = ''10'', category_name = cat, published_at = pub,
      duration_seconds = Fin dur, view_count = Fin views, like_count = Fin 100,
      comment_count = Fin 10, collected_at = ''2024-01-01T00:00:00Z''\<rparr>"

definition sample_data :: "video_record list" where
  "sample_data =
     [sample_video ''vid1'' ''Music'' (Text ''2024-01-01T00:00:00Z'') 180 1000,
      sample_video ''vid2'' ''Gaming'' (Text ''2024-01-02T00:00:00Z'') 600 5000,
      sample_video ''vid3'' ''Entertainment'' (Text ''2024-01-03T00:00:00Z'') 300 2000]"

definition loaded :: "video_record list \<Rightarrow> state" where
  "loaded rs = \<lparr>heap = [Videos Object rs], data = Some 0, processed = None\<rparr>"

text \<open>The first instant of 2024, and a snapshot time a hundred days later.\<close>

definition jan1 :: int where
  "jan1 = 1704067200000000000"

definition now0 :: int where
  "now0 = jan1 + 100 * day_ns + 7"

text \<open>The sample table with a fourth row whose \<open>published_at\<close> is not a date.\<close>

definition bad_stamp_data :: "video_record list" where
  "bad_stamp_data =
     sample_data @ [sample_video ''vid4'' ''Music'' (Text ''not a date'') 240 3000]"

text \<open>The sample table with a fourth row whose \<open>duration_seconds\<close> is missing.\<close>

definition missing_duration_video :: video_record where
  "missing_duration_video =
     (sample_video ''vid5'' ''Gaming'' (Text ''2024-01-01T00:00:00Z'') 0 700)
       \<lparr>duration_seconds := NaN\<rparr>"

definition missing_duration_data :: "video_record list" where
  "missing_duration_data = sample_data @ [missing_duration_video]"

text \<open>A video of exactly five minutes with exactly ten thousand views, and the same
  video with no view at all.\<close>

definition boundary_data :: "video_record list" where
  "boundary_data = [sample_video ''vid6'' ''Gaming'' (Text ''2024-01-01T00:00:00Z'') 300 10000]"

definition unviewed_data :: "video_record list" where
  "unviewed_data = [sample_video ''vid7'' ''Gaming'' (Text ''2024-01-01T00:00:00Z'') 300 0]"



text \<open>A video published more than 292 years before the snapshot time, and a video
  whose counters are infinite with opposite signs.\<close>

definition far_past_data :: "video_record list" where
  "far_past_data = [sample_video ''vid9'' ''Music'' (Text ''1700-01-01T00:00:00Z'') 180 1000]"

definition infinite_counts_data :: "video_record list" where
  "infinite_counts_data =
     [(sample_video ''vid10'' ''Music'' (Text ''2024-01-01T00:00:00Z'') 180 1000)
        \<lparr>like_count := PInf, comment_count := NInf\<rparr>]"

text \<open>
  The runs of \<^verbatim>\<open>tests/test_pipeline.py\<close>: \<open>test_calculate_metrics\<close> sets
  \<open>transformer.data\<close>, calls \<open>clean_data\<close> and reads the table that
  \<open>calculate_metrics\<close> returns; \<open>test_pipeline_execution\<close> reads the table that
  \<open>process_pipeline\<close> returns.
\<close>

definition metrics_table ::
  "parser \<Rightarrow> video_record list \<Rightarrow> error + (video_record \<times> metrics_cols) list" where
  "metrics_table to_datetime raw =
     (case clean_data to_datetime (loaded raw) of
        Inl e \<Rightarrow> Inl e
      | Inr (_, s1) \<Rightarrow>
          (case calculate_metrics s1 of
             Inl e \<Rightarrow> Inl e
           | Inr (b, s2) \<Rightarrow> Inr (metric_rows (heap s2 ! b))))"

definition processed_table ::
  "parser \<Rightarrow> int \<Rightarrow> video_record list \<Rightarrow>
     error + (video_record \<times> metrics_cols \<times> feature_cols) list" where
  "processed_table to_datetime now raw =
     (case process_pipeline to_datetime now (loaded raw) of
        Inl e \<Rightarrow> Inl e
      | Inr (p, s) \<Rightarrow> Inr (feature_rows (heap s ! p)))"

section \<open>What the three methods return\<close>

lemma dtype_of_kept: "dtype_of (kept d) = dtype_of d"
  by (cases d) simp_all

lemma copy_of_eq:
  "copy_of r h =
     (case r of None \<Rightarrow> Inl AttributeError
      | Some a \<Rightarrow> if a < length h then Inr (length h, h @ [h ! a]) else Inl Bad_reference)"
  by (simp add: copy_of_def deref_def new_frame_def split: option.splits)

lemma assign_last: "assign (length h) f (h @ [d]) = h @ [f d]"
  by (simp add: assign_def)

lemma calculate_metrics_eq:
  "calculate_metrics s =
     (case data s of None \<Rightarrow> Inl AttributeError
      | Some a \<Rightarrow>
          if a < length (heap s)
          then Inr (length (heap s),
                 s\<lparr>heap := heap s @ [set_metrics (heap s ! a)],
                   processed := Some (length (heap s))\<rparr>)
          else Inl Bad_reference)"
  by (simp add: calculate_metrics_def copy_of_eq assign_last split: option.splits)

lemma calculate_metrics_Inr:
  "calculate_metrics s = Inr (b, s') \<longleftrightarrow>
     (\<exists>a. data s = Some a \<and> a < length (heap s) \<and> b = length (heap s) \<and>
          s' = s\<lparr>heap := heap s @ [set_metrics (heap s ! a)], processed := Some (length (heap s))\<rparr>)"
  by (auto simp: calculate_metrics_eq split: option.splits)

lemma add_features_eq:
  "add_features now s =
     (case processed s of None \<Rightarrow> Inl AttributeError
      | Some a \<Rightarrow>
          if \<not> a < length (heap s) then Inl Bad_reference
          else if dtype_of (heap s ! a) \<noteq> Datetime then Inl AttributeError
          else if \<not> list_all (timedelta_ok now) (map published_at (videos_of (heap s ! a)))
          then Inl OverflowError
          else if \<not> has_metrics (heap s ! a) then Inl (KeyError ''duration_minutes'')
          else Inr (length (heap s),
                 s\<lparr>heap := heap s @ [set_features now (heap s ! a)],
                   processed := Some (length (heap s))\<rparr>))"
  by (simp add: add_features_def copy_of_eq assign_last split: option.splits)

lemma add_features_Inr:
  "add_features now s = Inr (b, s') \<longleftrightarrow>
     (\<exists>a. processed s = Some a \<and> a < length (heap s) \<and>
          dtype_of (heap s ! a) = Datetime \<and>
          list_all (timedelta_ok now) (map published_at (videos_of (heap s ! a))) \<and>
          has_metrics (heap s ! a) \<and> b = length (heap s) \<and>
          s' = s\<lparr>heap := heap s @ [set_features now (heap s ! a)], processed := Some (length (heap s))\<rparr>)"
  by (auto simp: add_features_eq split: option.splits)

lemma clean_data_eq:
  "clean_data P s =
     (case data s of None \<Rightarrow> Inl AttributeError
      | Some a \<Rightarrow>
          if \<not> a < length (heap s) then Inl Bad_reference
          else (case first_unparsable (reading P (heap s ! a))
                       (map published_at (videos_of (kept (heap s ! a)))) of
                  Some t \<Rightarrow> Inl (ValueError t)
                | None \<Rightarrow>
                    Inr (length (heap s) + 2,
                      s\<lparr>heap := heap s @
                           [heap s ! a,
                            map_videos fill_counters (drop_duplicates (heap s ! a)),
                            set_dtype (parsed_dtype P (heap s ! a))
                              (map_videos (set_datetime (reading P (heap s ! a)))
                                 (kept (heap s ! a)))],
                        data := Some (length (heap s) + 2)\<rparr>)))"
  by (simp add: clean_data_def copy_of_eq assign_def new_frame_def nth_append
        list_update_append Let_def case_prod_unfold dtype_of_kept split: option.splits)

lemma clean_data_Inr:
  "clean_data P s = Inr (b, s') \<longleftrightarrow>
     (\<exists>a. data s = Some a \<and> a < length (heap s) \<and>
          first_unparsable (reading P (heap s ! a))
            (map published_at (videos_of (kept (heap s ! a)))) = None \<and>
          b = length (heap s) + 2 \<and>
          s' = s\<lparr>heap := heap s @
                   [heap s ! a,
                    map_videos fill_counters (drop_duplicates (heap s ! a)),
                    set_dtype (parsed_dtype P (heap s ! a))
                      (map_videos (set_datetime (reading P (heap s ! a))) (kept (heap s ! a)))],
                 data := Some (length (heap s) + 2)\<rparr>)"
  by (auto simp: clean_data_eq split: option.splits)

section \<open>The columns of a table under the table operations\<close>

lemma drop_dups_map:
  "map f (drop_dups (key \<circ> f) seen rs) = drop_dups key seen (map f rs)"
  by (induction rs arbitrary: seen) simp_all

lemma set_drop_dups: "set (drop_dups key seen rs) \<subseteq> set rs"
  by (induction rs arbitrary: seen) auto

lemma videos_of_map_videos: "videos_of (map_videos f d) = map f (videos_of d)"
  by (cases d) (simp_all add: comp_def)

lemma videos_of_filter_videos: "videos_of (filter_videos P d) = filter P (videos_of d)"
  by (cases d) (simp_all add: filter_map)

lemma videos_of_drop_duplicates:
  "videos_of (drop_duplicates d) = drop_dups video_id [] (videos_of d)"
  by (cases d) (simp_all add: drop_dups_map)

lemma videos_of_set_dtype: "videos_of (set_dtype k d) = videos_of d"
  by (cases d) simp_all

lemma dtype_of_set_dtype: "dtype_of (set_dtype k d) = k"
  by (cases d) simp_all

lemma dtype_of_set_metrics: "dtype_of (set_metrics d) = dtype_of d"
  by (cases d) simp_all

lemma videos_of_set_metrics: "videos_of (set_metrics d) = videos_of d"
  by (cases d) (simp_all add: comp_def case_prod_unfold)

lemma videos_of_set_features: "videos_of (set_features now d) = videos_of d"
  by (cases d) (simp_all add: comp_def case_prod_unfold)

lemma metric_rows_set_metrics:
  "metric_rows (set_metrics d) = map (\<lambda>v. (v, metrics_of v)) (videos_of d)"
  by (cases d) (simp_all add: comp_def case_prod_unfold)

lemma has_metrics_set_metrics: "has_metrics (set_metrics d)"
  by (cases d) simp_all

section \<open>Cleaning\<close>

lemma first_unparsable_None:
  "first_unparsable parse ps = None \<longleftrightarrow> (\<forall>t. Text t \<in> set ps \<longrightarrow> parse t \<noteq> None)"
  by (induction parse ps rule: first_unparsable.induct) (auto split: option.splits)

lemma text_in_column:
  "(\<exists>t. Text t \<in> set (map f vs) \<and> Q t) \<longleftrightarrow> (\<exists>v \<in> set vs. \<exists>t. f v = Text t \<and> Q t)"
proof
  assume "\<exists>t. Text t \<in> set (map f vs) \<and> Q t"
  then obtain t where "Text t \<in> f ` set vs" and q: "Q t"
    by auto
  then obtain v where v: "v \<in> set vs" and "Text t = f v"
    by blast
  then have "f v = Text t"
    by simp
  with v q show "\<exists>v \<in> set vs. \<exists>t. f v = Text t \<and> Q t"
    by blast
next
  assume "\<exists>v \<in> set vs. \<exists>t. f v = Text t \<and> Q t"
  then obtain v t where v: "v \<in> set vs" and t: "f v = Text t" and q: "Q t"
    by blast
  from v have "f v \<in> set (map f vs)"
    by simp
  with t q show "\<exists>t. Text t \<in> set (map f vs) \<and> Q t"
    by auto
qed

lemma fill_counters_keeps [simp]:
  "video_id (fill_counters v) = video_id v"
  "published_at (fill_counters v) = published_at v"
  "duration_seconds (fill_counters v) = duration_seconds v"
  "positive_duration (fill_counters v) = positive_duration v"
  by (simp_all add: fill_counters_def positive_duration_def)

lemma set_datetime_keeps [simp]:
  "video_id (set_datetime parse v) = video_id v"
  "category_name (set_datetime parse v) = category_name v"
  "duration_seconds (set_datetime parse v) = duration_seconds v"
  "view_count (set_datetime parse v) = view_count v"
  "like_count (set_datetime parse v) = like_count v"
  "comment_count (set_datetime parse v) = comment_count v"
  "positive_duration (set_datetime parse v) = positive_duration v"
  by (simp_all add: set_datetime_def positive_duration_def)

lemma kept_videos: "videos_of (kept d) = map fill_counters (survivors d)"
  by (simp add: videos_of_map_videos videos_of_filter_videos videos_of_drop_duplicates
        filter_map comp_def)

lemma kept_published: "map published_at (videos_of (kept d)) = map published_at (survivors d)"
  by (simp add: kept_videos comp_def)

text \<open>The rows of the table that \<open>clean_data\<close> returns.\<close>

lemma clean_data_videos:
  assumes "clean_data P s = Inr (b, s')" and "data s = Some a"
  shows "videos_of (heap s' ! b) =
           map (\<lambda>v. set_datetime (reading P (heap s ! a)) (fill_counters v))
             (survivors (heap s ! a))"
  using assms
  by (auto simp: clean_data_Inr nth_append videos_of_map_videos videos_of_set_dtype kept_videos)

text \<open>
  Claim C8. Every row of the table that \<open>clean_data\<close> returns has
  \<open>duration_seconds > 0\<close>; none has \<open>duration_seconds \<le> 0\<close>.
\<close>

theorem clean_data_positive_duration:
  assumes "clean_data P s = Inr (b, s')"
  shows "\<forall>v \<in> set (videos_of (heap s' ! b)).
           fless (Fin 0) (duration_seconds v) \<and> \<not> fle (duration_seconds v) (Fin 0)"
proof -
  from assms obtain a where a: "data s = Some a"
    by (auto simp: clean_data_Inr)
  have pos: "fless (Fin 0) x \<Longrightarrow> \<not> fle x (Fin 0)" for x
    by (cases x) auto
  show ?thesis
    unfolding clean_data_videos [OF assms a]
    using pos by (auto simp: positive_duration_def)
qed

text \<open>
  Claim C10. No row of the table that \<open>clean_data\<close> returns has a missing
  \<open>duration_seconds\<close>: every row comes from a raw row with the same \<open>video_id\<close>
  and the same \<open>duration_seconds\<close>, present and positive, and a raw row whose
  \<open>duration_seconds\<close> is missing does not appear, whatever its \<open>published_at\<close>
  has become.
\<close>

theorem clean_data_no_missing_duration:
  assumes "clean_data P s = Inr (b, s')" and "data s = Some a"
  shows "(\<forall>v \<in> set (videos_of (heap s' ! b)).
            duration_seconds v \<noteq> NaN \<and>
            (\<exists>r \<in> set (videos_of (heap s ! a)).
               video_id r = video_id v \<and> duration_seconds r = duration_seconds v \<and>
               fless (Fin 0) (duration_seconds r))) \<and>
         (\<forall>r \<in> set (videos_of (heap s ! a)).
            duration_seconds r = NaN \<longrightarrow>
            (\<forall>p. (fill_counters r)\<lparr>published_at := p\<rparr> \<notin> set (videos_of (heap s' ! b))))"
proof -
  let ?raw = "videos_of (heap s ! a)"
  let ?out = "videos_of (heap s' ! b)"
  let ?parse = "reading P (heap s ! a)"
  have out: "?out = map (\<lambda>v. set_datetime ?parse (fill_counters v)) (survivors (heap s ! a))"
    by (rule clean_data_videos [OF assms])
  have sub: "set (drop_dups video_id [] ?raw) \<subseteq> set ?raw"
    by (rule set_drop_dups)
  have "\<exists>r \<in> set ?raw. video_id r = video_id v \<and> duration_seconds r = duration_seconds v \<and>
          fless (Fin 0) (duration_seconds r)" if "v \<in> set ?out" for v
  proof -
    from that out obtain r where r: "r \<in> set (drop_dups video_id [] ?raw)"
      and p: "positive_duration r" and v: "v = set_datetime ?parse (fill_counters r)"
      by auto
    from r sub have "r \<in> set ?raw" by blast
    with p v show ?thesis
      by (auto simp: positive_duration_def)
  qed
  moreover have "duration_seconds v \<noteq> NaN" if "v \<in> set ?out" for v
    using that out by (auto simp: positive_duration_def)
  moreover have "(fill_counters r)\<lparr>published_at := p\<rparr> \<notin> set ?out"
    if "duration_seconds r = NaN" for r p
  proof
    have "\<forall>v \<in> set ?out. positive_duration v"
      using out by auto
    moreover assume "(fill_counters r)\<lparr>published_at := p\<rparr> \<in> set ?out"
    ultimately have "positive_duration ((fill_counters r)\<lparr>published_at := p\<rparr>)"
      by blast
    with that show False
      by (simp add: positive_duration_def)
  qed
  ultimately show ?thesis by blast
qed

text \<open>
  Claim C2, as the code has it. \<open>clean_data\<close> calls \<^verbatim>\<open>pd.to_datetime\<close> on the
  \<open>published_at\<close> column of the rows that are left after \<open>drop_duplicates\<close> and
  after the filter on \<open>duration_seconds\<close>. It raises, and returns no table, exactly
  when a text of that column cannot be read in that column: one such row aborts the
  whole run. When it returns, the table has every one of those rows, in their order:
  no row is dropped for its timestamp.
\<close>

theorem clean_data_aborts_on_unparsable:
  assumes "data s = Some a" and "a < length (heap s)"
  shows "((\<exists>e. clean_data P s = Inl e) \<longleftrightarrow>
          (\<exists>v \<in> set (survivors (heap s ! a)).
             \<exists>t. published_at v = Text t \<and> reading P (heap s ! a) t = None)) \<and>
         (\<forall>b s'. clean_data P s = Inr (b, s') \<longrightarrow>
            videos_of (heap s' ! b) =
              map (\<lambda>v. set_datetime (reading P (heap s ! a)) (fill_counters v))
                (survivors (heap s ! a)) \<and>
            map video_id (videos_of (heap s' ! b)) = map video_id (survivors (heap s ! a)))"
proof (intro conjI allI impI)
  let ?parse = "reading P (heap s ! a)"
  let ?ps = "map published_at (videos_of (kept (heap s ! a)))"
  have "(\<exists>e. clean_data P s = Inl e) \<longleftrightarrow> first_unparsable ?parse ?ps \<noteq> None"
    using assms by (auto simp: clean_data_eq split: option.splits)
  also have "\<dots> \<longleftrightarrow> (\<exists>t. Text t \<in> set ?ps \<and> ?parse t = None)"
    by (simp add: first_unparsable_None)
  also have "\<dots> \<longleftrightarrow> (\<exists>v \<in> set (survivors (heap s ! a)).
             \<exists>t. published_at v = Text t \<and> ?parse t = None)"
    unfolding kept_published by (rule text_in_column)
  finally show "(\<exists>e. clean_data P s = Inl e) \<longleftrightarrow>
          (\<exists>v \<in> set (survivors (heap s ! a)).
             \<exists>t. published_at v = Text t \<and> ?parse t = None)" .
next
  fix b s'
  assume c: "clean_data P s = Inr (b, s')"
  from clean_data_videos [OF c assms(1)]
  show "videos_of (heap s' ! b) =
          map (\<lambda>v. set_datetime (reading P (heap s ! a)) (fill_counters v))
            (survivors (heap s ! a))" .
  then show "map video_id (videos_of (heap s' ! b)) = map video_id (survivors (heap s ! a))"
    by (simp add: comp_def)
qed

section \<open>Metrics and features do not touch what exists\<close>

text \<open>
  Claim C5. When \<open>calculate_metrics\<close> has returned a table, a second call on the
  transformer returns a table with the same content; the first table is not changed by
  the second call, and \<open>self.data\<close> is the same before and after both calls.
\<close>

theorem calculate_metrics_idempotent:
  assumes "calculate_metrics s = Inr (b, s1)"
  shows "\<exists>b' s2. calculate_metrics s1 = Inr (b', s2) \<and>
           heap s2 ! b' = heap s1 ! b \<and> heap s2 ! b = heap s1 ! b \<and>
           data s2 = data s1 \<and> data s1 = data s"
  using assms
  by (auto simp: calculate_metrics_Inr nth_append)

text \<open>
  Claim C9. \<open>calculate_metrics\<close> followed by \<open>add_features\<close> returns a table
  with the rows of \<open>self.data\<close>, in the same order and with every raw column
  unchanged. No table that existed before the calls is changed: not the table
  \<open>self.data\<close> refers to, and not the table that \<open>calculate_metrics\<close> returned,
  which is the input of \<open>add_features\<close>.
\<close>

theorem derived_columns_only:
  assumes "calculate_metrics s = Inr (b, s1)" and "add_features now s1 = Inr (c, s2)"
    and "data s = Some a"
  shows "videos_of (heap s2 ! c) = videos_of (heap s ! a) \<and>
         (\<forall>i < length (heap s). heap s2 ! i = heap s ! i) \<and>
         heap s1 ! a = heap s ! a \<and> heap s2 ! b = heap s1 ! b \<and>
         data s2 = Some a"
  using assms
  by (auto simp: calculate_metrics_Inr add_features_Inr nth_append videos_of_set_metrics
        videos_of_set_features)

section \<open>The rows of the pipeline\<close>

lemma clean_data_data:
  "clean_data P s = Inr (b, s') \<Longrightarrow> data s' = Some b \<and> b < length (heap s')"
  by (auto simp: clean_data_Inr)

lemma clean_data_all_positive:
  assumes "clean_data P s = Inr (b, s')"
  shows "\<forall>v \<in> set (videos_of (heap s' ! b)). positive_duration v"
proof -
  from assms obtain a where a: "data s = Some a"
    by (auto simp: clean_data_Inr)
  show ?thesis
    unfolding clean_data_videos [OF assms a] by auto
qed



lemma rint_values:
  "rint 1 = 1" "rint (10000 / 9) = 1111"
  by code_simp+

lemma calculate_metrics_rows:
  assumes "calculate_metrics s = Inr (b, s')" and "data s = Some a"
  shows "metric_rows (heap s' ! b) = map (\<lambda>v. (v, metrics_of v)) (videos_of (heap s ! a))"
  using assms by (auto simp: calculate_metrics_Inr metric_rows_set_metrics)

lemma calculate_metrics_row:
  assumes "calculate_metrics s = Inr (b, s')" and "(v, m) \<in> set (metric_rows (heap s' ! b))"
  shows "m = metrics_of v"
proof -
  from assms(1) obtain a where "data s = Some a"
    by (auto simp: calculate_metrics_Inr)
  from calculate_metrics_rows [OF assms(1) this] assms(2) show ?thesis
    by auto
qed

lemma channel_tier_of:
  "view_count v = Fin x \<Longrightarrow> 0 < x \<Longrightarrow>
   channel_tier (metrics_of v) =
     (if x \<le> 10000 then ''Micro'' else if x \<le> 100000 then ''Small''
      else if x \<le> 1000000 then ''Medium'' else if x \<le> 10000000 then ''Large''
      else ''Enterprise'')"
  by (simp add: metrics_of_def Let_def tier_bins_def tier_labels_def astype_str_def)

text \<open>
  Claim C1, as the code has it. In the table that \<open>calculate_metrics\<close> returns,
  every row with a positive \<open>view_count\<close> has exactly one of the five tiers, given by
  the bins \<open>(0, 10k]\<close>, \<open>(10k, 100k]\<close>, \<open>(100k, 1M]\<close>, \<open>(1M, 10M]\<close>,
  \<open>(10M, \<infinity>)\<close>: each bin is open on the left and closed on the right, so a
  \<open>view_count\<close> of exactly 10,000, 100,000, 1,000,000 or 10,000,000 is in the lower
  tier.
\<close>

theorem channel_tier_bins:
  assumes "calculate_metrics s = Inr (b, s')"
    and "(v, m) \<in> set (metric_rows (heap s' ! b))"
    and "view_count v = Fin x" and "0 < x"
  shows "channel_tier m =
     (if x \<le> 10000 then ''Micro'' else if x \<le> 100000 then ''Small''
      else if x \<le> 1000000 then ''Medium'' else if x \<le> 10000000 then ''Large''
      else ''Enterprise'')"
  using calculate_metrics_row [OF assms(1,2)] channel_tier_of [OF assms(3,4)] by simp

lemma music_metrics:
  assumes "duration_seconds v = Fin 180" and "view_count v = Fin 1000"
    and "category_name v = ''Music''"
  shows "base_ad_rate (metrics_of v) = Fin (15 / 100)"
    and "channel_tier (metrics_of v) = ''Micro''"
    and "tier_multiplier (metrics_of v) = Fin (12 / 10)"
    and "ad_density (metrics_of v) = Fin (18 / 100)"
    and "duration_minutes (metrics_of v) = Fin 3"
    and "estimated_ads (metrics_of v) = Fin 1"
    and "ad_time_seconds (metrics_of v) = Fin 20"
    and "ad_ratio (metrics_of v) = Fin (1111 / 100)"
  using assms
  by (simp_all add: metrics_of_def Let_def tier_bins_def tier_labels_def astype_str_def
        dict_map_def category_rates_def tier_multipliers_def rint_values)

section \<open>The formulas, row by row\<close>


lemma positive_cell: "(case x of Fin q \<Rightarrow> 0 < q | _ \<Rightarrow> False) \<Longrightarrow> \<exists>q. 0 < q \<and> x = Fin q"
  by (cases x) auto

lemma rate_positive: "\<exists>q. 0 < q \<and> fillna (25 / 100) (dict_map category_rates k) = Fin q"
  by (rule positive_cell) (simp add: dict_map_def category_rates_def)

lemma mult_positive: "\<exists>q. 0 < q \<and> fillna 1 (dict_map tier_multipliers t) = Fin q"
  by (rule positive_cell) (simp add: dict_map_def tier_multipliers_def)

lemma density_positive: "\<exists>q. 0 < q \<and> ad_density (metrics_of v) = Fin q"
proof -
  obtain q1 where q1: "0 < q1" "fillna (25 / 100) (dict_map category_rates (category_name v)) = Fin q1"
    using rate_positive by blast
  obtain q2 where q2: "0 < q2"
    "fillna 1 (dict_map tier_multipliers (astype_str (cut (view_count v) tier_bins tier_labels))) = Fin q2"
    using mult_positive by blast
  from q1 q2 have "ad_density (metrics_of v) = Fin (q1 * q2)" "0 < q1 * q2"
    by (simp_all add: metrics_of_def Let_def)
  then show ?thesis by blast
qed

lemma rint_ge_1: "1 \<le> x \<Longrightarrow> 1 \<le> rint x"
proof -
  assume "1 \<le> x"
  then have "1 \<le> \<lfloor>x\<rfloor>"
    by (simp add: le_floor_iff)
  then show ?thesis
    by (simp add: rint_def Let_def)
qed

lemma estimated_ads_eq:
  "estimated_ads (metrics_of v) =
     fround 0 (clip_lower 1 (fmul (ad_density (metrics_of v)) (fdiv (duration_seconds v) (Fin 60))))"
  by (simp add: metrics_of_def Let_def)

lemma estimated_ads_ge_1:
  assumes "duration_seconds v \<noteq> NaN"
  shows "fle (Fin 1) (estimated_ads (metrics_of v))"
proof -
  obtain q where q: "0 < q" "ad_density (metrics_of v) = Fin q"
    using density_positive by blast
  show ?thesis
  proof (cases "duration_seconds v")
    case (Fin d)
    with q show ?thesis
      by (simp add: estimated_ads_eq rint_ge_1)
  next
    case PInf
    with q show ?thesis
      by (simp add: estimated_ads_eq inf_of_sign_def)
  next
    case NInf
    with q show ?thesis
      by (simp add: estimated_ads_eq inf_of_sign_def rint_values)
  next
    case NaN
    with assms show ?thesis by simp
  qed
qed

lemma positive_not_NaN: "positive_duration v \<Longrightarrow> duration_seconds v \<noteq> NaN"
  by (auto simp: positive_duration_def)

lemma feature_rows_pipeline:
  "feature_rows (set_features now (set_metrics d)) =
     map (\<lambda>v. (v, metrics_of v, features_of now v (metrics_of v))) (videos_of d)"
  by (cases d) (simp_all add: comp_def case_prod_unfold)

text \<open>After a cleaning that returned, \<open>calculate_metrics\<close> does not raise, and
  \<open>add_features\<close> raises only when the parsed column is not a datetime column or a
  difference of instants does not fit. The rows of the tables are computed from the
  cleaned rows one by one.\<close>

lemma metrics_after_clean:
  assumes "clean_data P s = Inr (a, s1)"
  shows "\<exists>b s2. calculate_metrics s1 = Inr (b, s2) \<and>
           metric_rows (heap s2 ! b) = map (\<lambda>v. (v, metrics_of v)) (videos_of (heap s1 ! a))"
proof -
  from clean_data_data [OF assms] show ?thesis
    by (auto simp: calculate_metrics_eq metric_rows_set_metrics)
qed

lemma features_after_metrics:
  assumes "clean_data P s = Inr (a, s1)" and "calculate_metrics s1 = Inr (b, s2)"
  shows "add_features now s2 =
           (if dtype_of (heap s1 ! a) \<noteq> Datetime then Inl AttributeError
            else if list_all (timedelta_ok now) (map published_at (videos_of (heap s1 ! a)))
            then Inr (length (heap s2),
                   s2\<lparr>heap := heap s2 @ [set_features now (set_metrics (heap s1 ! a))],
                      processed := Some (length (heap s2))\<rparr>)
            else Inl OverflowError)"
proof -
  from clean_data_data [OF assms(1)] have d: "data s1 = Some a" "a < length (heap s1)"
    by blast+
  with assms(2) have s2: "s2 = s1\<lparr>heap := heap s1 @ [set_metrics (heap s1 ! a)],
                           processed := Some (length (heap s1))\<rparr>"
    by (auto simp: calculate_metrics_Inr)
  show ?thesis
    using d by (simp add: s2 add_features_eq videos_of_set_metrics has_metrics_set_metrics
                  dtype_of_set_metrics)
qed

lemma pipeline_rows:
  assumes "clean_data P s = Inr (a, s1)" and "calculate_metrics s1 = Inr (b, s2)"
    and "add_features now s2 = Inr (c, s3)"
  shows "metric_rows (heap s2 ! b) = map (\<lambda>v. (v, metrics_of v)) (videos_of (heap s1 ! a))"
    and "feature_rows (heap s3 ! c) =
           map (\<lambda>v. (v, metrics_of v, features_of now v (metrics_of v)))
             (videos_of (heap s1 ! a))"
proof -
  from metrics_after_clean [OF assms(1)] assms(2)
  show "metric_rows (heap s2 ! b) = map (\<lambda>v. (v, metrics_of v)) (videos_of (heap s1 ! a))"
    by auto
  from assms(3) show "feature_rows (heap s3 ! c) =
           map (\<lambda>v. (v, metrics_of v, features_of now v (metrics_of v)))
             (videos_of (heap s1 ! a))"
    unfolding features_after_metrics [OF assms(1,2)]
    by (auto simp: feature_rows_pipeline split: if_splits)
qed

lemma pipeline_runs:
  assumes "clean_data P s = Inr (a, s1)" and "dtype_of (heap s1 ! a) = Datetime"
    and "list_all (timedelta_ok now) (map published_at (videos_of (heap s1 ! a)))"
  shows "\<exists>b s2 c s3. calculate_metrics s1 = Inr (b, s2) \<and> add_features now s2 = Inr (c, s3)"
proof -
  from metrics_after_clean [OF assms(1)] obtain b s2 where
    m: "calculate_metrics s1 = Inr (b, s2)"
    by blast
  from features_after_metrics [OF assms(1) m, of now] assms(2,3) m show ?thesis
    by auto
qed

text \<open>
  Claim C7. In the table that \<open>calculate_metrics\<close> returns after \<open>clean_data\<close>,
  every row has \<open>estimated_ads \<ge> 1\<close>.
\<close>

theorem estimated_ads_at_least_one:
  assumes "clean_data P s = Inr (a, s1)" and "calculate_metrics s1 = Inr (b, s2)"
  shows "\<forall>(v, m) \<in> set (metric_rows (heap s2 ! b)). fle (Fin 1) (estimated_ads m)"
proof -
  from assms(1) have d: "data s1 = Some a"
    using clean_data_data by blast
  have pos: "\<forall>v \<in> set (videos_of (heap s1 ! a)). positive_duration v"
    by (rule clean_data_all_positive [OF assms(1)])
  show ?thesis
    unfolding calculate_metrics_rows [OF assms(2) d]
    using pos by (auto intro!: estimated_ads_ge_1 positive_not_NaN)
qed

lemma duration_minutes_eq:
  "duration_minutes (metrics_of v) = fdiv (duration_seconds v) (Fin 60)"
  by (simp add: metrics_of_def Let_def)

lemma duration_category_of:
  assumes "positive_duration v"
  shows "fless (Fin 0) (duration_minutes (metrics_of v)) \<and>
         duration_category (features_of now v (metrics_of v)) =
           Some (if fle (duration_minutes (metrics_of v)) (Fin 5) then ''Short''
                 else if fle (duration_minutes (metrics_of v)) (Fin 15) then ''Medium''
                 else if fle (duration_minutes (metrics_of v)) (Fin 30) then ''Long''
                 else ''Very Long'')"
  using assms
  by (cases "duration_seconds v")
     (auto simp: positive_duration_def duration_minutes_eq features_of_def Let_def
        duration_bins_def duration_labels_def)

text \<open>
  Claim C3, as the code has it. For every row of the table that \<open>add_features\<close>
  returns after \<open>clean_data\<close> and \<open>calculate_metrics\<close>, \<open>duration_minutes\<close> is
  positive and \<open>duration_category\<close> is given by the bins \<open>(0, 5]\<close>, \<open>(5, 15]\<close>,
  \<open>(15, 30]\<close>, \<open>(30, \<infinity>)\<close>: each bin is closed on the right, so exactly 5,
  15 and 30 minutes are Short, Medium and Long.
\<close>

theorem duration_category_bins:
  assumes "clean_data P s = Inr (a, s1)" and "calculate_metrics s1 = Inr (b, s2)"
    and "add_features now s2 = Inr (c, s3)"
    and "(v, m, f) \<in> set (feature_rows (heap s3 ! c))"
  shows "fless (Fin 0) (duration_minutes m) \<and>
         duration_category f =
           Some (if fle (duration_minutes m) (Fin 5) then ''Short''
                 else if fle (duration_minutes m) (Fin 15) then ''Medium''
                 else if fle (duration_minutes m) (Fin 30) then ''Long''
                 else ''Very Long'')"
proof -
  have rows: "feature_rows (heap s3 ! c) =
      map (\<lambda>v. (v, metrics_of v, features_of now v (metrics_of v))) (videos_of (heap s1 ! a))"
    by (rule pipeline_rows [OF assms(1,2,3)])
  with assms(4) have v: "v \<in> set (videos_of (heap s1 ! a))" and m: "m = metrics_of v"
    and f: "f = features_of now v (metrics_of v)"
    by auto
  from v clean_data_all_positive [OF assms(1)] have "positive_duration v"
    by blast
  from duration_category_of [OF this, of now] m f show ?thesis
    by simp
qed

text \<open>
  Claim C4, as the code has it. A row with \<open>duration_seconds = 180\<close>,
  \<open>view_count = 1000\<close> and \<open>category_name = 'Music'\<close> gets
  \<open>base_ad_rate = 0.15\<close> (the rate table has Music), \<open>channel_tier = 'Micro'\<close>,
  \<open>tier_multiplier = 1.2\<close>, \<open>ad_density = 0.18\<close>, \<open>duration_minutes = 3\<close>,
  \<open>estimated_ads = 1\<close>, \<open>ad_time_seconds = 20\<close> and \<open>ad_ratio = 11.11\<close>.
\<close>

theorem music_example:
  assumes "calculate_metrics s = Inr (b, s')"
    and "(v, m) \<in> set (metric_rows (heap s' ! b))"
    and "duration_seconds v = Fin 180" and "view_count v = Fin 1000"
    and "category_name v = ''Music''"
  shows "base_ad_rate m = Fin (15 / 100) \<and> channel_tier m = ''Micro'' \<and>
         tier_multiplier m = Fin (12 / 10) \<and> ad_density m = Fin (18 / 100) \<and>
         duration_minutes m = Fin 3 \<and> estimated_ads m = Fin 1 \<and>
         ad_time_seconds m = Fin 20 \<and> ad_ratio m = Fin (1111 / 100)"
  using calculate_metrics_row [OF assms(1,2)] music_metrics [OF assms(3,4,5)]
  by simp









section \<open>Runs on concrete tables\<close>

lemma cleaned_run:
  assumes "case clean_data P s of Inl e \<Rightarrow> False | Inr (a, s1) \<Rightarrow> Q a s1"
  shows "\<exists>a s1. clean_data P s = Inr (a, s1) \<and> Q a s1"
  using assms by (auto split: sum.splits)

lemma iso_utc_values:
  "iso_utc ''2024-01-01T00:00:00Z'' = Some jan1"
  "iso_utc ''not a date'' = None"
  by code_simp+

lemma sample_cleaned:
  "\<exists>a s1. clean_data api_parser (loaded sample_data) = Inr (a, s1) \<and>
     videos_of (heap s1 ! a) = map (set_datetime iso_utc) sample_data"
  by (rule cleaned_run) code_simp

lemma api_parser_dtype:
  assumes "clean_data api_parser s = Inr (a, s1)"
  shows "dtype_of (heap s1 ! a) = Datetime"
  using assms by (auto simp: clean_data_Inr api_parser_def dtype_of_set_dtype nth_append)

lemma sample_in_time:
  "list_all (timedelta_ok now0) (map published_at (map (set_datetime iso_utc) sample_data))"
  by code_simp

text \<open>The cleaned sample table keeps its three rows, all of positive duration.\<close>

theorem clean_data_positive_duration_witness:
  "\<exists>b s'. clean_data api_parser (loaded sample_data) = Inr (b, s') \<and>
     videos_of (heap s' ! b) = map (set_datetime iso_utc) sample_data \<and>
     list_all (\<lambda>v. fless (Fin 0) (duration_seconds v) \<and> \<not> fle (duration_seconds v) (Fin 0))
       (videos_of (heap s' ! b))"
proof -
  from sample_cleaned obtain b s' where
    c: "clean_data api_parser (loaded sample_data) = Inr (b, s')"
    and v: "videos_of (heap s' ! b) = map (set_datetime iso_utc) sample_data"
    by blast
  from clean_data_positive_duration [OF c]
  have "list_all (\<lambda>v. fless (Fin 0) (duration_seconds v) \<and> \<not> fle (duration_seconds v) (Fin 0))
       (videos_of (heap s' ! b))"
    by (simp add: list_all_iff)
  with c v show ?thesis by blast
qed

lemma missing_duration_cleaned:
  "\<exists>a s1. clean_data api_parser (loaded missing_duration_data) = Inr (a, s1) \<and>
     videos_of (heap s1 ! a) = map (set_datetime iso_utc) sample_data"
  by (rule cleaned_run) code_simp

text \<open>The sample table with a fourth row of missing duration: the three sample rows
  are left.\<close>

theorem clean_data_no_missing_duration_witness:
  "\<exists>b s'. clean_data api_parser (loaded missing_duration_data) = Inr (b, s') \<and>
     data (loaded missing_duration_data) = Some 0 \<and>
     missing_duration_video \<in> set (videos_of (heap (loaded missing_duration_data) ! 0)) \<and>
     duration_seconds missing_duration_video = NaN \<and>
     videos_of (heap s' ! b) = map (set_datetime iso_utc) sample_data \<and>
     list_all (\<lambda>v. duration_seconds v \<noteq> NaN) (videos_of (heap s' ! b)) \<and>
     (fill_counters missing_duration_video)\<lparr>published_at := Stamp jan1\<rparr>
       \<notin> set (videos_of (heap s' ! b))"
proof -
  from missing_duration_cleaned obtain b s' where
    c: "clean_data api_parser (loaded missing_duration_data) = Inr (b, s')"
    and v: "videos_of (heap s' ! b) = map (set_datetime iso_utc) sample_data"
    by blast
  have d: "data (loaded missing_duration_data) = Some 0"
    by (simp add: loaded_def)
  have r: "missing_duration_video \<in> set (videos_of (heap (loaded missing_duration_data) ! 0))"
    by (simp add: loaded_def missing_duration_data_def)
  have n: "duration_seconds missing_duration_video = NaN"
    by (simp add: missing_duration_video_def)
  from clean_data_no_missing_duration [OF c d] r n
  have "list_all (\<lambda>v. duration_seconds v \<noteq> NaN) (videos_of (heap s' ! b))"
    and "(fill_counters missing_duration_video)\<lparr>published_at := Stamp jan1\<rparr>
           \<notin> set (videos_of (heap s' ! b))"
    by (auto simp: list_all_iff)
  with c d r n v show ?thesis by blast
qed

text \<open>
  Claim C2 as stated fails: with one unreadable timestamp among four rows,
  \<open>clean_data\<close> and \<open>process_pipeline\<close> raise instead of returning the other
  three rows.
\<close>

theorem unparsable_timestamp_aborts:
  "clean_data api_parser (loaded bad_stamp_data) = Inl (ValueError ''not a date'') \<and>
   process_pipeline api_parser now0 (loaded bad_stamp_data) = Inl (ValueError ''not a date'')"
  by code_simp

text \<open>The table with the unreadable timestamp aborts; the sample table does not, and
  its three rows are returned.\<close>

theorem clean_data_aborts_on_unparsable_witness:
  "data (loaded bad_stamp_data) = Some 0 \<and> 0 < length (heap (loaded bad_stamp_data)) \<and>
   (\<exists>e. clean_data api_parser (loaded bad_stamp_data) = Inl e) \<and>
   data (loaded sample_data) = Some 0 \<and> 0 < length (heap (loaded sample_data)) \<and>
   (\<exists>b s'. clean_data api_parser (loaded sample_data) = Inr (b, s') \<and>
      map video_id (videos_of (heap s' ! b)) = [''vid1'', ''vid2'', ''vid3''])"
proof -
  have d: "data (loaded bad_stamp_data) = Some 0" "0 < length (heap (loaded bad_stamp_data))"
    "data (loaded sample_data) = Some 0" "0 < length (heap (loaded sample_data))"
    by (simp_all add: loaded_def)
  let ?v = "sample_video ''vid4'' ''Music'' (Text ''not a date'') 240 3000"
  have "?v \<in> set (survivors (heap (loaded bad_stamp_data) ! 0))"
    by (simp add: loaded_def bad_stamp_data_def sample_data_def sample_video_def
          positive_duration_def)
  moreover have "published_at ?v = Text ''not a date''"
    by (simp add: sample_video_def)
  moreover have "reading api_parser (heap (loaded bad_stamp_data) ! 0) ''not a date'' = None"
    by (simp add: api_parser_def iso_utc_values)
  ultimately have 1: "\<exists>e. clean_data api_parser (loaded bad_stamp_data) = Inl e"
    using clean_data_aborts_on_unparsable [OF d(1,2), of api_parser] by blast
  from sample_cleaned obtain b s' where
    c: "clean_data api_parser (loaded sample_data) = Inr (b, s')"
    by blast
  from clean_data_aborts_on_unparsable [OF d(3,4), of api_parser] c
  have "map video_id (videos_of (heap s' ! b)) =
          map video_id (survivors (heap (loaded sample_data) ! 0))"
    by blast
  also have "\<dots> = [''vid1'', ''vid2'', ''vid3'']"
    by code_simp
  finally have i: "map video_id (videos_of (heap s' ! b)) = [''vid1'', ''vid2'', ''vid3'']" .
  have 2: "\<exists>b s'. clean_data api_parser (loaded sample_data) = Inr (b, s') \<and>
      map video_id (videos_of (heap s' ! b)) = [''vid1'', ''vid2'', ''vid3'']"
  proof (intro exI conjI)
    show "clean_data api_parser (loaded sample_data) = Inr (b, s')"
      by (rule c)
    show "map video_id (videos_of (heap s' ! b)) = [''vid1'', ''vid2'', ''vid3'']"
      by (rule i)
  qed
  from d 1 2 show ?thesis
    by simp
qed

text \<open>
  Claim C1 as stated fails: a cleaned video with exactly 10,000 views is Micro, not
  Small.
\<close>

theorem boundary_views_lower_tier:
  "map_sum id (map (\<lambda>(v, m). (view_count v, channel_tier m)))
     (metrics_table api_parser boundary_data) = Inr [(Fin 10000, ''Micro'')]"
  by code_simp

text \<open>A video without views is in no bin: its tier is the text \<open>nan\<close> and its
  multiplier the default 1.\<close>

lemma no_views_no_tier:
  "map_sum id (map (\<lambda>(v, m). (view_count v, channel_tier m, tier_multiplier m)))
     (metrics_table api_parser unviewed_data) = Inr [(Fin 0, ''nan'', Fin 1)]"
  by code_simp

text \<open>
  Claim C3 as stated fails: a video of exactly five minutes is Short, not Medium.
\<close>

theorem five_minutes_is_short:
  "map_sum id (map (\<lambda>(v, m, f). (duration_minutes m, duration_category f)))
     (processed_table api_parser now0 boundary_data) = Inr [(Fin 5, Some ''Short'')]"
  by code_simp

text \<open>
  Claim C4 as stated fails: on the sample table of the tests, whose first row is the
  row of the claim, \<open>base_ad_rate\<close> of the Music row is 0.15, not 0.25.
\<close>

theorem music_rate_is_15:
  "map_sum id (map (\<lambda>(v, m). (category_name v, duration_seconds v, view_count v, base_ad_rate m)))
     (metrics_table api_parser sample_data) =
     Inr [(''Music'', Fin 180, Fin 1000, Fin (15 / 100)),
          (''Gaming'', Fin 600, Fin 5000, Fin (25 / 100)),
          (''Entertainment'', Fin 300, Fin 2000, Fin (30 / 100))]"
  by code_simp


text \<open>
  Two more runs, on cells that claim C6 does not expect. A video published more than
  292 years before the snapshot time makes \<open>add_features\<close> raise, and counters that
  are infinite with opposite signs give a NaN \<open>engagement_rate\<close>.
\<close>

lemma far_timestamp_overflows:
  "process_pipeline api_parser now0 (loaded far_past_data) = Inl OverflowError"
  by code_simp

lemma infinite_counters_give_NaN:
  "map_sum id (map (\<lambda>(v, m). (like_count v, comment_count v, engagement_rate m)))
     (metrics_table api_parser infinite_counts_data) = Inr [(PInf, NInf, NaN)]"
  by code_simp

lemma run_on:
  assumes "\<exists>a s1. clean_data api_parser s = Inr (a, s1) \<and> videos_of (heap s1 ! a) = vs"
    and "list_all (timedelta_ok now) (map published_at vs)"
  shows "\<exists>a s1 b s2 c s3.
           clean_data api_parser s = Inr (a, s1) \<and> calculate_metrics s1 = Inr (b, s2) \<and>
           add_features now s2 = Inr (c, s3) \<and> data s1 = Some a \<and> a < length (heap s1) \<and>
           videos_of (heap s1 ! a) = vs \<and>
           metric_rows (heap s2 ! b) = map (\<lambda>v. (v, metrics_of v)) vs \<and>
           feature_rows (heap s3 ! c) =
             map (\<lambda>v. (v, metrics_of v, features_of now v (metrics_of v))) vs"
proof -
  from assms(1) obtain a s1 where c: "clean_data api_parser s = Inr (a, s1)"
    and v: "videos_of (heap s1 ! a) = vs"
    by blast
  from pipeline_runs [OF c api_parser_dtype [OF c], of now] assms(2) v obtain b s2 c' s3 where
    m: "calculate_metrics s1 = Inr (b, s2)" and f: "add_features now s2 = Inr (c', s3)"
    by auto
  from pipeline_rows [OF c m f] clean_data_data [OF c] c m f v show ?thesis
    by auto
qed

lemmas sample_run = run_on [OF sample_cleaned sample_in_time]

text \<open>Two calls on the cleaned sample table.\<close>

theorem calculate_metrics_idempotent_witness:
  "\<exists>a s1 b s2 b' s3.
     clean_data api_parser (loaded sample_data) = Inr (a, s1) \<and> calculate_metrics s1 = Inr (b, s2) \<and>
     calculate_metrics s2 = Inr (b', s3) \<and> heap s3 ! b' = heap s2 ! b \<and>
     metric_rows (heap s3 ! b') = map (\<lambda>v. (v, metrics_of v)) (map (set_datetime iso_utc) sample_data)"
proof -
  from sample_run obtain a s1 b s2 where
    c: "clean_data api_parser (loaded sample_data) = Inr (a, s1)"
    and m: "calculate_metrics s1 = Inr (b, s2)"
    and r: "metric_rows (heap s2 ! b) = map (\<lambda>v. (v, metrics_of v)) (map (set_datetime iso_utc) sample_data)"
    by blast
  from calculate_metrics_idempotent [OF m] obtain b' s3 where
    "calculate_metrics s2 = Inr (b', s3)" "heap s3 ! b' = heap s2 ! b"
    by blast
  with c m r show ?thesis
    by (intro exI [of _ a] exI [of _ s1] exI [of _ b] exI [of _ s2] exI [of _ b'] exI [of _ s3])
       simp
qed

text \<open>The run on the cleaned sample table.\<close>

theorem derived_columns_only_witness:
  "\<exists>a s1 b s2 c s3.
     clean_data api_parser (loaded sample_data) = Inr (a, s1) \<and> calculate_metrics s1 = Inr (b, s2) \<and>
     add_features now0 s2 = Inr (c, s3) \<and> data s1 = Some a \<and> a < length (heap s1) \<and>
     videos_of (heap s1 ! a) = map (set_datetime iso_utc) sample_data \<and>
     videos_of (heap s3 ! c) = map (set_datetime iso_utc) sample_data \<and>
     heap s3 ! a = heap s1 ! a \<and> heap s3 ! b = heap s2 ! b"
proof -
  from sample_run obtain a s1 b s2 c s3 where
    c: "clean_data api_parser (loaded sample_data) = Inr (a, s1)"
    and m: "calculate_metrics s1 = Inr (b, s2)"
    and f: "add_features now0 s2 = Inr (c, s3)"
    and d: "data s1 = Some a" "a < length (heap s1)"
    and v: "videos_of (heap s1 ! a) = map (set_datetime iso_utc) sample_data"
    by blast
  from derived_columns_only [OF m f d(1)] d(2) v
  have "videos_of (heap s3 ! c) = map (set_datetime iso_utc) sample_data"
    "heap s3 ! a = heap s1 ! a" "heap s3 ! b = heap s2 ! b"
    by auto
  with c m f d v show ?thesis
    by (intro exI [of _ a] exI [of _ s1] exI [of _ b] exI [of _ s2] exI [of _ c] exI [of _ s3])
       simp
qed

text \<open>The first row of the sample table, once cleaned.\<close>

lemma first_sample:
  "set_datetime iso_utc (sample_video ''vid1'' ''Music'' (Text ''2024-01-01T00:00:00Z'') 180 1000)
     \<in> set (map (set_datetime iso_utc) sample_data)"
  by (simp add: sample_data_def)

lemma row_in: "v \<in> set vs \<Longrightarrow> (v, g v) \<in> set (map (\<lambda>v. (v, g v)) vs)"
  by (induction vs) auto

lemma first_sample_fields:
  "duration_seconds (sample_video vid cat pub dur views) = Fin dur"
  "view_count (sample_video vid cat pub dur views) = Fin views"
  "category_name (sample_video vid cat pub dur views) = cat"
  by (simp_all add: sample_video_def)

text \<open>The first sample video, with 1000 views, is Micro.\<close>

theorem channel_tier_bins_witness:
  "\<exists>a s1 b s2 v m.
     clean_data api_parser (loaded sample_data) = Inr (a, s1) \<and> calculate_metrics s1 = Inr (b, s2) \<and>
     (v, m) \<in> set (metric_rows (heap s2 ! b)) \<and> view_count v = Fin 1000 \<and>
     (0 :: rat) < 1000 \<and> channel_tier m = ''Micro''"
proof -
  let ?v = "set_datetime iso_utc (sample_video ''vid1'' ''Music'' (Text ''2024-01-01T00:00:00Z'') 180 1000)"
  from sample_run obtain a s1 b s2 where
    c: "clean_data api_parser (loaded sample_data) = Inr (a, s1)"
    and m: "calculate_metrics s1 = Inr (b, s2)"
    and r: "metric_rows (heap s2 ! b) = map (\<lambda>v. (v, metrics_of v)) (map (set_datetime iso_utc) sample_data)"
    by blast
  from row_in [OF first_sample, of metrics_of]
  have i: "(?v, metrics_of ?v) \<in> set (metric_rows (heap s2 ! b))"
    unfolding r .
  have x: "view_count ?v = Fin 1000" "(0 :: rat) < 1000"
    by (simp_all add: first_sample_fields)
  from channel_tier_bins [OF m i x] have "channel_tier (metrics_of ?v) = ''Micro''"
    by simp
  with c m i x show ?thesis
    by blast
qed

text \<open>The first sample video is the row of claim C4.\<close>

theorem music_example_witness:
  "\<exists>a s1 b s2 v m.
     clean_data api_parser (loaded sample_data) = Inr (a, s1) \<and> calculate_metrics s1 = Inr (b, s2) \<and>
     (v, m) \<in> set (metric_rows (heap s2 ! b)) \<and>
     duration_seconds v = Fin 180 \<and> view_count v = Fin 1000 \<and> category_name v = ''Music'' \<and>
     base_ad_rate m = Fin (15 / 100) \<and> channel_tier m = ''Micro'' \<and>
     tier_multiplier m = Fin (12 / 10) \<and> ad_density m = Fin (18 / 100) \<and>
     duration_minutes m = Fin 3 \<and> estimated_ads m = Fin 1 \<and>
     ad_time_seconds m = Fin 20 \<and> ad_ratio m = Fin (1111 / 100)"
proof -
  let ?v = "set_datetime iso_utc (sample_video ''vid1'' ''Music'' (Text ''2024-01-01T00:00:00Z'') 180 1000)"
  from sample_run obtain a s1 b s2 where
    c: "clean_data api_parser (loaded sample_data) = Inr (a, s1)"
    and m: "calculate_metrics s1 = Inr (b, s2)"
    and r: "metric_rows (heap s2 ! b) = map (\<lambda>v. (v, metrics_of v)) (map (set_datetime iso_utc) sample_data)"
    by blast
  from row_in [OF first_sample, of metrics_of]
  have i: "(?v, metrics_of ?v) \<in> set (metric_rows (heap s2 ! b))"
    unfolding r .
  have x: "duration_seconds ?v = Fin 180" "view_count ?v = Fin 1000" "category_name ?v = ''Music''"
    by (simp_all add: first_sample_fields)
  from music_example [OF m i x] c m i x show ?thesis
    by blast
qed

text \<open>The first sample video lasts three minutes and is Short.\<close>

theorem duration_category_bins_witness:
  "\<exists>a s1 b s2 c s3 v m f.
     clean_data api_parser (loaded sample_data) = Inr (a, s1) \<and> calculate_metrics s1 = Inr (b, s2) \<and>
     add_features now0 s2 = Inr (c, s3) \<and> (v, m, f) \<in> set (feature_rows (heap s3 ! c)) \<and>
     duration_minutes m = Fin 3 \<and> duration_category f = Some ''Short''"
proof -
  let ?v = "set_datetime iso_utc (sample_video ''vid1'' ''Music'' (Text ''2024-01-01T00:00:00Z'') 180 1000)"
  let ?m = "metrics_of ?v"
  let ?f = "features_of now0 ?v ?m"
  from sample_run obtain a s1 b s2 c s3 where
    c: "clean_data api_parser (loaded sample_data) = Inr (a, s1)"
    and m: "calculate_metrics s1 = Inr (b, s2)"
    and f: "add_features now0 s2 = Inr (c, s3)"
    and r: "feature_rows (heap s3 ! c) =
      map (\<lambda>v. (v, metrics_of v, features_of now0 v (metrics_of v))) (map (set_datetime iso_utc) sample_data)"
    by blast
  from row_in [OF first_sample, of "\<lambda>v. (metrics_of v, features_of now0 v (metrics_of v))"]
  have i: "(?v, ?m, ?f) \<in> set (feature_rows (heap s3 ! c))"
    unfolding r .
  have d: "duration_minutes ?m = Fin 3"
    by (simp add: duration_minutes_eq first_sample_fields)
  from duration_category_bins [OF c m f i] d have "duration_category ?f = Some ''Short''"
    by simp
  with c m f i d show ?thesis
    by blast
qed

text \<open>The three rows of the sample table.\<close>

theorem estimated_ads_at_least_one_witness:
  "\<exists>a s1 b s2.
     clean_data api_parser (loaded sample_data) = Inr (a, s1) \<and> calculate_metrics s1 = Inr (b, s2) \<and>
     length (metric_rows (heap s2 ! b)) = 3 \<and>
     list_all (\<lambda>(v, m). fle (Fin 1) (estimated_ads m)) (metric_rows (heap s2 ! b))"
proof -
  from sample_run obtain a s1 b s2 where
    c: "clean_data api_parser (loaded sample_data) = Inr (a, s1)"
    and m: "calculate_metrics s1 = Inr (b, s2)"
    and r: "metric_rows (heap s2 ! b) = map (\<lambda>v. (v, metrics_of v)) (map (set_datetime iso_utc) sample_data)"
    by blast
  from r have l: "length (metric_rows (heap s2 ! b)) = 3"
    by (simp add: sample_data_def)
  from estimated_ads_at_least_one [OF c m]
  have "list_all (\<lambda>(v, m). fle (Fin 1) (estimated_ads m)) (metric_rows (heap s2 ! b))"
    by (simp add: list_all_iff)
  with c m l show ?thesis
    by blast
qed






end
